theory Spec2Isabelle
  imports Complex_Main "HOL-Library.Multiset" "HOL-Library.Product_Lexorder"
    "HOL-Library.List_Lexorder" "HOL-Library.Char_ord"
begin

section \<open>Floating-point values\<close>

text \<open>
  A value of the SQL types \<^verbatim>\<open>REAL\<close> and \<^verbatim>\<open>FLOAT\<close> is a number, one of the two infinities,
  or NaN. The numbers are idealised as real numbers: rounding is not modelled.
  PostgreSQL orders these values totally, NaN above every other value and equal to
  itself; \<open>float_rank\<close> maps a value to its place in that order and \<open>pg_ge\<close> is the
  operator \<^verbatim>\<open>>=\<close>.
\<close>

datatype pg_float = Num real | PosInf | NegInf | NaN

fun float_rank :: "pg_float \<Rightarrow> nat \<times> real" where
  "float_rank NegInf = (0, 0)"
| "float_rank (Num r) = (1, r)"
| "float_rank PosInf = (2, 0)"
| "float_rank NaN = (3, 0)"

definition pg_ge :: "pg_float \<Rightarrow> pg_float \<Rightarrow> bool" where
  "pg_ge a b = (float_rank b \<le> float_rank a)"

text \<open>The expression \<^verbatim>\<open>1 - x\<close>.\<close>

fun one_minus :: "pg_float \<Rightarrow> pg_float" where
  "one_minus (Num r) = Num (1 - r)"
| "one_minus PosInf = NegInf"
| "one_minus NegInf = PosInf"
| "one_minus NaN = NaN"

section \<open>Queries\<close>

text \<open>
  What a query answers instead of rows when it fails: a negative \<^verbatim>\<open>LIMIT\<close>, a text that
  the cast \<^verbatim>\<open>::INT\<close> cannot read or that is out of the range of \<^verbatim>\<open>INT\<close>, and
  \<^verbatim>\<open>jsonb_object_keys\<close> applied to a value that is not an object.
\<close>

datatype query_error =
    Negative_Limit
  | Invalid_Integer
  | Integer_Out_Of_Range
  | Not_An_Object

text \<open>
  \<^verbatim>\<open>LIMIT n\<close>: a NULL limit keeps every row, a negative one is an error that is raised
  before any row is produced.
\<close>

definition negative_limit :: "int option \<Rightarrow> bool" where
  "negative_limit n = (case n of None \<Rightarrow> False | Some k \<Rightarrow> k < 0)"

definition limit_rows :: "int option \<Rightarrow> 'a list \<Rightarrow> 'a list" where
  "limit_rows n xs = (case n of None \<Rightarrow> xs | Some k \<Rightarrow> take (nat k) xs)"

text \<open>
  \<^verbatim>\<open>ORDER BY\<close> fixes the order of the rows as far as the sort key decides. In which order
  rows of equal key come out is left to the executor: it depends on the scan, on the
  sort algorithm and on the limit. The model takes the executor's part as a parameter
  \<open>arrange\<close>, a rearrangement of the rows that reach the sort, and sorts the rearranged
  rows stably; every order that \<^verbatim>\<open>ORDER BY\<close> allows comes from some rearrangement.
  \<open>rearranges\<close> says that \<open>arrange\<close> neither drops nor adds rows.
\<close>

definition order_by :: "('a \<Rightarrow> 'k::linorder) \<Rightarrow> ('a list \<Rightarrow> 'a list) \<Rightarrow> 'a list \<Rightarrow> 'a list" where
  "order_by key arrange xs = sort_key key (arrange xs)"

definition rearranges :: "('a list \<Rightarrow> 'a list) \<Rightarrow> bool" where
  "rearranges arrange = (\<forall>xs. mset (arrange xs) = mset xs)"

section \<open>The prompt-record table\<close>

text \<open>
  \<^verbatim>\<open>SUPABASE_SCHEMA.sql\<close> declares the table \<^verbatim>\<open>dop_prompt_records\<close>. A row is a record
  with one field per column, in the order of the declaration. A column that may hold
  NULL has an option type; the columns declared \<^verbatim>\<open>NOT NULL\<close> (and the primary key) do
  not. \<^verbatim>\<open>UUID\<close> values are numbered, \<^verbatim>\<open>TIMESTAMPTZ\<close> values are integers (microseconds),
  and a \<^verbatim>\<open>vector\<close> is the list of its components, which are numbers (pgvector admits
  neither NaN nor an infinity in a vector).
\<close>

type_synonym uuid = nat
type_synonym timestamptz = int
type_synonym vector = "real list"

record prompt_record =
  rec_id :: uuid
  user_id :: "uuid option"
  original_prompt :: string
  normalized_prompt :: string
  embedding :: "vector option"
  model_id :: string
  model_type :: string
  mode :: string
  aspect_ratio :: "string option"
  quality_score :: "pg_float option"
  full_body_score :: "pg_float option"
  background_score :: "pg_float option"
  face_clarity_score :: "pg_float option"
  match_score :: "pg_float option"
  was_approved :: "bool option"
  was_retried :: "bool option"
  retry_count :: "int option"
  created_at :: "timestamptz option"
  rec_keywords :: "string list option"
  rec_tags :: "string list option"

type_synonym prompt_table = "prompt_record list"

subsection \<open>search_similar_prompts\<close>

text \<open>
  The row type of \<^verbatim>\<open>RETURNS TABLE (id, original_prompt, normalized_prompt, model_type,
  mode, quality_score, similarity)\<close>.
\<close>

record search_row =
  sr_id :: uuid
  sr_original_prompt :: string
  sr_normalized_prompt :: string
  sr_model_type :: string
  sr_mode :: string
  sr_quality_score :: "pg_float option"
  similarity :: pg_float

text \<open>
  The operator \<^verbatim>\<open><=>\<close> belongs to the pgvector extension, not to this repository: the
  query is modelled for an arbitrary distance operator \<open>dist_op\<close>, applied as the source
  applies it (\<^verbatim>\<open>r.embedding <=> query_embedding\<close>). Its value is a \<^verbatim>\<open>FLOAT\<close> and may be
  NaN. Both operands are declared \<^verbatim>\<open>vector(768)\<close>, and the operator is taken to have a
  value on them.

  Each of the five parameters may be NULL (\<open>None\<close>); the function is not declared
  \<^verbatim>\<open>STRICT\<close>.

  \<open>passes_filters\<close> is the part of the \<^verbatim>\<open>WHERE\<close> clause that does not look at the
  embedding. SQL keeps a row only when the condition is true, so a NULL
  \<^verbatim>\<open>was_approved\<close> or \<^verbatim>\<open>quality_score\<close> rejects the row.
\<close>

definition passes_filters :: "string option \<Rightarrow> string option \<Rightarrow> prompt_record \<Rightarrow> bool" where
  "passes_filters match_model_type match_mode r =
     (was_approved r = Some True
      \<and> (case quality_score r of None \<Rightarrow> False | Some s \<Rightarrow> pg_ge s (Num 0.7))
      \<and> (match_model_type = None \<or> Some (model_type r) = match_model_type)
      \<and> (match_mode = None \<or> Some (mode r) = match_mode))"

text \<open>
  \<open>candidate\<close> is the whole \<^verbatim>\<open>WHERE\<close> clause: it yields the row together with its
  distance to the query when the row qualifies (\<^verbatim>\<open>r.embedding IS NOT NULL AND
  1 - (r.embedding <=> query_embedding) >= similarity_threshold\<close>). With a NULL query
  or a NULL threshold the comparison is NULL and no row qualifies.
\<close>

definition candidate ::
  "(vector \<Rightarrow> vector \<Rightarrow> pg_float) \<Rightarrow> vector option \<Rightarrow> string option \<Rightarrow> string option
     \<Rightarrow> pg_float option \<Rightarrow> prompt_record \<Rightarrow> (prompt_record \<times> pg_float) option" where
  "candidate dist_op query_embedding match_model_type match_mode similarity_threshold r =
     (if passes_filters match_model_type match_mode r then
        (case embedding r of
           None \<Rightarrow> None
         | Some e \<Rightarrow>
             (case query_embedding of
                None \<Rightarrow> None
              | Some q \<Rightarrow>
                  (case similarity_threshold of
                     None \<Rightarrow> None
                   | Some t \<Rightarrow>
                       if pg_ge (one_minus (dist_op e q)) t
                       then Some (r, dist_op e q) else None)))
      else None)"

text \<open>The rows that qualify, each with its distance, in the order of the scan.\<close>

definition qualifying_rows ::
  "(vector \<Rightarrow> vector \<Rightarrow> pg_float) \<Rightarrow> prompt_table \<Rightarrow> vector option \<Rightarrow> string option
     \<Rightarrow> string option \<Rightarrow> pg_float option \<Rightarrow> (prompt_record \<times> pg_float) list" where
  "qualifying_rows dist_op tbl query_embedding match_model_type match_mode similarity_threshold =
     List.map_filter
       (candidate dist_op query_embedding match_model_type match_mode similarity_threshold) tbl"

text \<open>The \<^verbatim>\<open>SELECT\<close> list, for a row and its distance to the query.\<close>

definition select_row :: "prompt_record \<times> pg_float \<Rightarrow> search_row" where
  "select_row c =
     \<lparr> sr_id = rec_id (fst c),
       sr_original_prompt = original_prompt (fst c),
       sr_normalized_prompt = normalized_prompt (fst c),
       sr_model_type = model_type (fst c),
       sr_mode = mode (fst c),
       sr_quality_score = quality_score (fst c),
       similarity = one_minus (snd c) \<rparr>"

text \<open>
  \<^verbatim>\<open>ORDER BY r.embedding <=> query_embedding LIMIT match_count\<close>: the qualifying rows in
  ascending order of the distance, a NaN distance last, cut after \<open>match_count\<close> rows.
\<close>

definition search_similar_prompts ::
  "((prompt_record \<times> pg_float) list \<Rightarrow> (prompt_record \<times> pg_float) list)
     \<Rightarrow> (vector \<Rightarrow> vector \<Rightarrow> pg_float) \<Rightarrow> prompt_table \<Rightarrow> vector option \<Rightarrow> string option
     \<Rightarrow> string option \<Rightarrow> int option \<Rightarrow> pg_float option \<Rightarrow> query_error + search_row list" where
  "search_similar_prompts arrange dist_op tbl query_embedding match_model_type match_mode
       match_count similarity_threshold =
     (if negative_limit match_count then Inl Negative_Limit
      else Inr (map select_row
        (limit_rows match_count
           (order_by (\<lambda>c. float_rank (snd c)) arrange
              (qualifying_rows dist_op tbl query_embedding match_model_type match_mode
                 similarity_threshold)))))"




subsection \<open>Inserting a row\<close>

text \<open>
  The values an \<^verbatim>\<open>INSERT\<close> supplies, one per column but \<^verbatim>\<open>id\<close>, which always takes its
  default. \<open>None\<close> stands for a column the statement leaves out: it takes the declared
  default where the column has one and NULL otherwise. The scores are values of the
  column type \<^verbatim>\<open>REAL\<close>.
\<close>

record prompt_record_draft =
  d_user_id :: "uuid option"
  d_original_prompt :: "string option"
  d_normalized_prompt :: "string option"
  d_embedding :: "vector option"
  d_model_id :: "string option"
  d_model_type :: "string option"
  d_mode :: "string option"
  d_aspect_ratio :: "string option"
  d_quality_score :: "pg_float option"
  d_full_body_score :: "pg_float option"
  d_background_score :: "pg_float option"
  d_face_clarity_score :: "pg_float option"
  d_match_score :: "pg_float option"
  d_was_approved :: "bool option"
  d_was_retried :: "bool option"
  d_retry_count :: "int option"
  d_created_at :: "timestamptz option"
  d_keywords :: "string list option"
  d_tags :: "string list option"

text \<open>
  What the database answers to a row the declaration rejects: a vector whose dimension
  is not the column's (\<^verbatim>\<open>vector(768)\<close>), NULL in a \<^verbatim>\<open>NOT NULL\<close> column, a failed \<^verbatim>\<open>CHECK\<close>,
  a primary key already present. Each carries the column it is about.
\<close>

datatype insert_error =
    Dimension_Mismatch nat nat
  | Not_Null_Violation string
  | Check_Violation string
  | Unique_Violation string

definition embedding_dimension :: nat where
  "embedding_dimension = 768"

text \<open>\<^verbatim>\<open>mode TEXT NOT NULL CHECK (mode IN ('character', 'scene'))\<close>\<close>

definition mode_check :: "string \<Rightarrow> bool" where
  "mode_check m = (m = ''character'' \<or> m = ''scene'')"

text \<open>
  Storing a value in the column \<^verbatim>\<open>embedding vector(768)\<close> coerces it to the column
  type, which fails for a vector of another dimension; NULL is stored as it is.
\<close>

definition coerce_embedding :: "vector option \<Rightarrow> insert_error + vector option" where
  "coerce_embedding v =
     (case v of
        None \<Rightarrow> Inr None
      | Some e \<Rightarrow>
          if length e \<noteq> embedding_dimension
          then Inl (Dimension_Mismatch embedding_dimension (length e))
          else Inr (Some e))"

text \<open>
  \<open>new_row\<close> builds the row from the draft: the embedding is coerced to the column type
  first, then the \<^verbatim>\<open>NOT NULL\<close> columns are checked in column order, then the \<^verbatim>\<open>CHECK\<close>.
  \<open>new_id\<close> is the value of \<^verbatim>\<open>gen_random_uuid()\<close> and \<open>now\<close> the value of
  \<^verbatim>\<open>timezone('utc', now())\<close>.
\<close>

definition new_row :: "uuid \<Rightarrow> timestamptz \<Rightarrow> prompt_record_draft \<Rightarrow> insert_error + prompt_record" where
  "new_row new_id now d =
     (case coerce_embedding (d_embedding d) of Inl err \<Rightarrow> Inl err
      | Inr emb \<Rightarrow>
     (case d_original_prompt d of None \<Rightarrow> Inl (Not_Null_Violation ''original_prompt'')
      | Some original \<Rightarrow>
     (case d_normalized_prompt d of None \<Rightarrow> Inl (Not_Null_Violation ''normalized_prompt'')
      | Some normalized \<Rightarrow>
     (case d_model_id d of None \<Rightarrow> Inl (Not_Null_Violation ''model_id'')
      | Some mid \<Rightarrow>
     (case d_model_type d of None \<Rightarrow> Inl (Not_Null_Violation ''model_type'')
      | Some mtype \<Rightarrow>
     (case d_mode d of None \<Rightarrow> Inl (Not_Null_Violation ''mode'')
      | Some m \<Rightarrow>
     if \<not> mode_check m then Inl (Check_Violation ''mode'')
     else Inr
       \<lparr> rec_id = new_id, user_id = d_user_id d,
         original_prompt = original, normalized_prompt = normalized,
         embedding = emb,
         model_id = mid, model_type = mtype, mode = m,
         aspect_ratio = (case d_aspect_ratio d of None \<Rightarrow> Some ''16:9'' | Some a \<Rightarrow> Some a),
         quality_score = d_quality_score d,
         full_body_score = d_full_body_score d,
         background_score = d_background_score d,
         face_clarity_score = d_face_clarity_score d,
         match_score = d_match_score d,
         was_approved = (case d_was_approved d of None \<Rightarrow> Some False | Some b \<Rightarrow> Some b),
         was_retried = (case d_was_retried d of None \<Rightarrow> Some False | Some b \<Rightarrow> Some b),
         retry_count = (case d_retry_count d of None \<Rightarrow> Some 0 | Some n \<Rightarrow> Some n),
         created_at = (case d_created_at d of None \<Rightarrow> Some now | Some t \<Rightarrow> Some t),
         rec_keywords = d_keywords d, rec_tags = d_tags d \<rparr>))))))"

text \<open>
  The insert returns the new row's id and the table with the row added, or the error
  and the table as it was (the statement is rolled back). The foreign key of
  \<^verbatim>\<open>user_id\<close> points into \<^verbatim>\<open>auth.users\<close>, a table of the authentication service, and
  is not checked here.
\<close>

definition insert_dop_prompt_record ::
  "uuid \<Rightarrow> timestamptz \<Rightarrow> prompt_record_draft \<Rightarrow> prompt_table
     \<Rightarrow> (insert_error + uuid) \<times> prompt_table" where
  "insert_dop_prompt_record new_id now d tbl =
     (case new_row new_id now d of
        Inl err \<Rightarrow> (Inl err, tbl)
      | Inr r \<Rightarrow>
          if new_id \<in> set (map rec_id tbl) then (Inl (Unique_Violation ''id''), tbl)
          else (Inr new_id, tbl @ [r]))"

text \<open>
  The range the schema's comment gives for a quality score (\<^verbatim>\<open>-- 0.0-1.0 overall
  quality\<close>): unset, or a number from 0 to 1.
\<close>

definition score_in_range :: "pg_float option \<Rightarrow> bool" where
  "score_in_range v =
     (case v of
        None \<Rightarrow> True
      | Some (Num s) \<Rightarrow> 0 \<le> s \<and> s \<le> 1
      | Some _ \<Rightarrow> False)"

section \<open>The model-learning table\<close>

text \<open>
  The table \<^verbatim>\<open>dop_model_learnings\<close>. A \<^verbatim>\<open>JSONB\<close> value is an object, the list of its
  members in the order \<^verbatim>\<open>jsonb_object_keys\<close> enumerates them, or something else (an
  array, a scalar). Of a member only what the query does with it matters, which is to
  read it as text (\<^verbatim>\<open>->>\<close>) and cast the text to \<^verbatim>\<open>INT\<close>: \<open>JNull\<close> is the JSON null,
  read as NULL; \<open>JInteger i\<close> is a member whose text is the integer literal \<open>i\<close>;
  \<open>JOther\<close> is any other member.
\<close>

datatype jsonb_value = JNull | JInteger int | JOther

datatype jsonb = JObject "(string \<times> jsonb_value) list" | JNotObject

record model_learning =
  ml_id :: uuid
  ml_model_type :: string
  total_generations :: "int option"
  approved_count :: "int option"
  avg_quality_score :: "pg_float option"
  approval_rate :: "pg_float option"
  best_aspect_ratios :: "jsonb option"
  common_keywords :: "jsonb option"
  successful_patterns :: "string list option"
  ml_updated_at :: "timestamptz option"

type_synonym learning_table = "model_learning list"

subsection \<open>get_model_best_keywords\<close>

text \<open>
  \<^verbatim>\<open>(common_keywords->>key)::INT\<close>: NULL for a JSON null, the integer when it is in
  the range of \<^verbatim>\<open>INT\<close>, an error otherwise.
\<close>

definition cast_int :: "jsonb_value \<Rightarrow> query_error + int option" where
  "cast_int v =
     (case v of
        JNull \<Rightarrow> Inr None
      | JInteger i \<Rightarrow>
          if - (2 ^ 31) \<le> i \<and> i < 2 ^ 31 then Inr (Some i) else Inl Integer_Out_Of_Range
      | JOther \<Rightarrow> Inl Invalid_Integer)"

text \<open>
  The inner \<^verbatim>\<open>SELECT\<close>: one row per key of \<^verbatim>\<open>common_keywords\<close> with the count stored
  under it. A NULL histogram gives no row; the first cast that fails fails the query.
\<close>

fun member_rows :: "(string \<times> jsonb_value) list \<Rightarrow> query_error + (string \<times> int option) list" where
  "member_rows [] = Inr []"
| "member_rows (kv # kvs) =
     (case cast_int (snd kv) of
        Inl err \<Rightarrow> Inl err
      | Inr f \<Rightarrow>
          (case member_rows kvs of
             Inl err \<Rightarrow> Inl err
           | Inr rows \<Rightarrow> Inr ((fst kv, f) # rows)))"

definition keyword_rows :: "model_learning \<Rightarrow> query_error + (string \<times> int option) list" where
  "keyword_rows m =
     (case common_keywords m of
        None \<Rightarrow> Inr []
      | Some JNotObject \<Rightarrow> Inl Not_An_Object
      | Some (JObject kvs) \<Rightarrow> member_rows kvs)"

text \<open>
  The rows of the inner \<^verbatim>\<open>SELECT\<close> over \<^verbatim>\<open>WHERE model_type = target_model_type\<close>; a
  NULL target matches no row.
\<close>

fun collect_rows :: "model_learning list \<Rightarrow> query_error + (string \<times> int option) list" where
  "collect_rows [] = Inr []"
| "collect_rows (m # ms) =
     (case keyword_rows m of
        Inl err \<Rightarrow> Inl err
      | Inr rows \<Rightarrow>
          (case collect_rows ms of
             Inl err \<Rightarrow> Inl err
           | Inr rest \<Rightarrow> Inr (rows @ rest)))"

definition target_keyword_rows ::
  "learning_table \<Rightarrow> string option \<Rightarrow> query_error + (string \<times> int option) list" where
  "target_keyword_rows tbl target_model_type =
     collect_rows (filter (\<lambda>m. Some (ml_model_type m) = target_model_type) tbl)"

text \<open>
  \<^verbatim>\<open>ORDER BY k.frequency DESC\<close>: a NULL frequency first, then the frequencies from the
  highest down. \<open>desc_nulls_first\<close> is the sort key, \<open>frequency_descending a b\<close> says
  that \<open>a\<close> may stand before \<open>b\<close>.
\<close>

definition desc_nulls_first :: "int option \<Rightarrow> nat \<times> int" where
  "desc_nulls_first f = (case f of None \<Rightarrow> (0, 0) | Some n \<Rightarrow> (1, - n))"

definition frequency_descending :: "int option \<Rightarrow> int option \<Rightarrow> bool" where
  "frequency_descending a b =
     (case a of
        None \<Rightarrow> True
      | Some m \<Rightarrow> (case b of None \<Rightarrow> False | Some n \<Rightarrow> n \<le> m))"

text \<open>
  The function: the limit is checked first, and \<^verbatim>\<open>LIMIT 0\<close> answers with no rows
  without running the inner \<^verbatim>\<open>SELECT\<close>.
\<close>

definition get_model_best_keywords ::
  "((string \<times> int option) list \<Rightarrow> (string \<times> int option) list) \<Rightarrow> learning_table
     \<Rightarrow> string option \<Rightarrow> int option \<Rightarrow> query_error + (string \<times> int option) list" where
  "get_model_best_keywords arrange tbl target_model_type keyword_limit =
     (if negative_limit keyword_limit then Inl Negative_Limit
      else if keyword_limit = Some 0 then Inr []
      else
        (case target_keyword_rows tbl target_model_type of
           Inl err \<Rightarrow> Inl err
         | Inr rows \<Rightarrow>
             Inr (limit_rows keyword_limit
                    (order_by (\<lambda>k. desc_nulls_first (snd k)) arrange rows))))"

definition default_keyword_limit :: "int option" where
  "default_keyword_limit = Some 20"



section \<open>Cosine similarity\<close>

text \<open>
  Modelled from the spec: the operator \<^verbatim>\<open><=>\<close> that \<open>search_similar_prompts\<close> applies
  is pgvector's cosine distance, and its code is not among the sources. The spec
  describes it as the standard vector-angle distance, with
  \<^verbatim>\<open>similarity(a, b) = 1 - cosine_distance(a, b)\<close> and a range of [0, 2]:
  one minus the dot product over the product of the norms. That quotient is defined for
  two vectors of the same dimension and non-zero norm; elsewhere there is no value
  (pgvector rejects different dimensions and answers NaN for a vector of norm zero).
\<close>

definition dot_product :: "vector \<Rightarrow> vector \<Rightarrow> real" where
  "dot_product a b = (\<Sum>(x, y)\<leftarrow>zip a b. x * y)"

definition cosine_distance :: "vector \<Rightarrow> vector \<Rightarrow> real option" where
  "cosine_distance a b =
     (if length a \<noteq> length b \<or> dot_product a a = 0 \<or> dot_product b b = 0 then None
      else Some (1 - dot_product a b / (sqrt (dot_product a a) * sqrt (dot_product b b))))"

definition cosine_similarity :: "vector \<Rightarrow> vector \<Rightarrow> real option" where
  "cosine_similarity a b = map_option (\<lambda>d. 1 - d) (cosine_distance a b)"

section \<open>The model-learning aggregate\<close>

text \<open>
  Modelled from the spec: the code that maintains \<^verbatim>\<open>dop_model_learnings\<close> when records
  are created and approved (\<^verbatim>\<open>on_record_created\<close>, \<^verbatim>\<open>on_record_approved\<close>) is not among
  the sources, which hold the table's declaration only. The spec gives the aggregate two
  running counters and two histograms that are incremented on observation, one
  aggregate per model type, created with zero counters on first touch;
  \<^verbatim>\<open>on_record_created\<close> increments the total, \<^verbatim>\<open>on_record_approved\<close> is called when a
  record becomes approved and increments the approved count and the histograms, each
  as one atomic update. The quality average is derived at read time and left out.
\<close>

record learning_aggregate =
  agg_total_generations :: nat
  agg_approved_count :: nat
  agg_aspect_ratios :: "string \<Rightarrow> nat"
  agg_keywords :: "string \<Rightarrow> nat"

type_synonym learning_store = "string \<rightharpoonup> learning_aggregate"

definition empty_aggregate :: learning_aggregate where
  "empty_aggregate =
     \<lparr> agg_total_generations = 0, agg_approved_count = 0,
       agg_aspect_ratios = (\<lambda>_. 0), agg_keywords = (\<lambda>_. 0) \<rparr>"

definition get_learning :: "learning_store \<Rightarrow> string \<Rightarrow> learning_aggregate" where
  "get_learning st t = (case st t of None \<Rightarrow> empty_aggregate | Some a \<Rightarrow> a)"

definition observe :: "(string \<Rightarrow> nat) \<Rightarrow> string \<Rightarrow> (string \<Rightarrow> nat)" where
  "observe h k = h(k := h k + 1)"

definition on_record_created :: "prompt_record \<Rightarrow> learning_store \<Rightarrow> learning_store" where
  "on_record_created r st =
     (let a = get_learning st (model_type r)
      in st(model_type r \<mapsto> a\<lparr>agg_total_generations := agg_total_generations a + 1\<rparr>))"

definition on_record_approved :: "prompt_record \<Rightarrow> learning_store \<Rightarrow> learning_store" where
  "on_record_approved r st =
     (let a = get_learning st (model_type r)
      in st(model_type r \<mapsto>
           a\<lparr>agg_approved_count := agg_approved_count a + 1,
             agg_aspect_ratios :=
               (case aspect_ratio r of None \<Rightarrow> agg_aspect_ratios a
                | Some ar \<Rightarrow> observe (agg_aspect_ratios a) ar),
             agg_keywords :=
               (case rec_keywords r of None \<Rightarrow> agg_keywords a
                | Some ks \<Rightarrow> fold (\<lambda>k h. observe h k) ks (agg_keywords a))\<rparr>))"

datatype learning_event = Record_Created prompt_record | Record_Approved prompt_record

fun apply_event :: "learning_event \<Rightarrow> learning_store \<Rightarrow> learning_store" where
  "apply_event (Record_Created r) st = on_record_created r st"
| "apply_event (Record_Approved r) st = on_record_approved r st"

fun apply_events :: "learning_event list \<Rightarrow> learning_store \<Rightarrow> learning_store" where
  "apply_events [] st = st"
| "apply_events (e # es) st = apply_events es (apply_event e st)"

text \<open>
  The life cycle of the records behind a sequence of events: a record is approved after
  it was created, under the model type it was created with, and once. \<open>pending\<close> lists
  the records created and not yet approved.
\<close>

fun lifecycle_ok :: "(uuid \<times> string) list \<Rightarrow> learning_event list \<Rightarrow> bool" where
  "lifecycle_ok pending [] = True"
| "lifecycle_ok pending (Record_Created r # es) =
     lifecycle_ok ((rec_id r, model_type r) # pending) es"
| "lifecycle_ok pending (Record_Approved r # es) =
     ((rec_id r, model_type r) \<in> set pending
      \<and> lifecycle_ok (remove1 (rec_id r, model_type r) pending) es)"

section \<open>The image editor's state\<close>

text \<open>
  The hook \<^verbatim>\<open>useImageEditor\<close> keeps one \<^verbatim>\<open>ImageEditorState\<close>; each action passes an
  updater to \<^verbatim>\<open>setEditorState\<close>, modelled as a function on the state.
\<close>

datatype character_view = Master | Face | Body | Side | Back

datatype ImageSource =
    Scene string
  | Character string character_view
  | Product string string
  | Gallery string
  | Gommo "string option" "string option" string
  | Upload "string option"
  | Url string

datatype image_provider = Gemini_provider | Gommo_provider

record EditorImage =
  img_id :: string
  image :: string
  prompt :: "string option"
  source :: ImageSource
  createdAt :: int
  model :: "string option"
  provider :: "image_provider option"

record ImageEditorState =
  isOpen :: bool
  currentImage :: "EditorImage option"
  history :: "EditorImage list"
  isLoading :: bool
  error :: "string option"

definition initial_editor_state :: ImageEditorState where
  "initial_editor_state =
     \<lparr> isOpen = False, currentImage = None, history = [], isLoading = False, error = None \<rparr>"

definition openEditor :: "EditorImage \<Rightarrow> ImageEditorState \<Rightarrow> ImageEditorState" where
  "openEditor img prev = prev\<lparr>isOpen := True, currentImage := Some img, error := None\<rparr>"

definition closeEditor :: "ImageEditorState \<Rightarrow> ImageEditorState" where
  "closeEditor prev = prev\<lparr>isOpen := False, currentImage := None, error := None\<rparr>"

text \<open>
  JavaScript's \<^verbatim>\<open>xs.slice(-n)\<close>: the last \<open>n\<close> elements, or all of \<open>xs\<close> when it is
  shorter.
\<close>

definition slice_last :: "nat \<Rightarrow> 'a list \<Rightarrow> 'a list" where
  "slice_last n xs = drop (length xs - n) xs"

definition addToHistory :: "EditorImage \<Rightarrow> ImageEditorState \<Rightarrow> ImageEditorState" where
  "addToHistory img prev = prev\<lparr>history := slice_last 50 (history prev @ [img])\<rparr>"

definition clearHistory :: "ImageEditorState \<Rightarrow> ImageEditorState" where
  "clearHistory prev = prev\<lparr>history := []\<rparr>"

text \<open>
  \<^verbatim>\<open>onEditorSave(editedImage, history, viewKey)\<close> reads the current image, adds the
  edited copy to the history when there is one, and closes the editor. \<open>new_id\<close> and
  \<open>now\<close> are the values of \<^verbatim>\<open>generateId()\<close> and \<^verbatim>\<open>Date.now()\<close>. The save callback acts
  outside the state; the arguments \<^verbatim>\<open>history\<close> and \<^verbatim>\<open>viewKey\<close> are only logged.
\<close>

definition onEditorSave :: "string \<Rightarrow> string \<Rightarrow> int \<Rightarrow> ImageEditorState \<Rightarrow> ImageEditorState" where
  "onEditorSave editedImage new_id now s =
     closeEditor
       (case currentImage s of
          None \<Rightarrow> s
        | Some cur \<Rightarrow> addToHistory (cur\<lparr>img_id := new_id, image := editedImage, createdAt := now\<rparr>) s)"

datatype editor_action =
    OpenEditor EditorImage
  | CloseEditor
  | AddToHistory EditorImage
  | ClearHistory
  | OnEditorSave string string int

fun editor_step :: "editor_action \<Rightarrow> ImageEditorState \<Rightarrow> ImageEditorState" where
  "editor_step (OpenEditor img) s = openEditor img s"
| "editor_step CloseEditor s = closeEditor s"
| "editor_step (AddToHistory img) s = addToHistory img s"
| "editor_step ClearHistory s = clearHistory s"
| "editor_step (OnEditorSave editedImage new_id now) s = onEditorSave editedImage new_id now s"

fun editor_run :: "editor_action list \<Rightarrow> ImageEditorState \<Rightarrow> ImageEditorState" where
  "editor_run [] s = s"
| "editor_run (a # as) s = editor_run as (editor_step a s)"

definition sample_image :: EditorImage where
  "sample_image =
     \<lparr> img_id = ''img_1'', image = ''data:image/png;base64,AAAA'', prompt = None,
       source = Scene ''scene-1'', createdAt = 0, model = None, provider = None \<rparr>"

definition full_editor_state :: ImageEditorState where
  "full_editor_state = initial_editor_state\<lparr>history := replicate 50 sample_image\<rparr>"

section \<open>Sample data\<close>

text \<open>
  The distance operator of the examples is the cosine distance of the section on
  cosine similarity, as a \<^verbatim>\<open>FLOAT\<close>: NaN where the distance has no value. It is applied
  to vectors of dimension 768 only.
\<close>

definition pgvector_cosine :: "vector \<Rightarrow> vector \<Rightarrow> pg_float" where
  "pgvector_cosine a b = (case cosine_distance a b of None \<Rightarrow> NaN | Some d \<Rightarrow> Num d)"

definition unit_x :: vector where
  "unit_x = 1 # replicate 767 0"


definition zero_vector :: vector where
  "zero_vector = replicate 768 0"

text \<open>
  \<open>sample_table\<close>: three records with the same embedding, the second one not
  approved and the third one with a quality score under the floor. \<open>tie_table\<close>: two
  eligible records with the same embedding, the later one first in the scan.
  \<open>mixed_table\<close>: an eligible record whose embedding is the zero vector, then two
  eligible records at distance 1 and 0 from \<open>unit_x\<close>.
\<close>

definition sample_record :: prompt_record where
  "sample_record =
     \<lparr> rec_id = 1, user_id = None,
       original_prompt = ''a cat'', normalized_prompt = ''cat'',
       embedding = Some unit_x,
       model_id = ''imagen-3'', model_type = ''imagen'', mode = ''scene'',
       aspect_ratio = Some ''16:9'',
       quality_score = Some (Num 0.9), full_body_score = None, background_score = None,
       face_clarity_score = None, match_score = None,
       was_approved = Some True, was_retried = Some False, retry_count = Some 0,
       created_at = Some 200, rec_keywords = None, rec_tags = None \<rparr>"

definition sample_table :: prompt_table where
  "sample_table =
     [sample_record,
      sample_record\<lparr>rec_id := 2, was_approved := Some False\<rparr>,
      sample_record\<lparr>rec_id := 3, quality_score := Some (Num 0.6)\<rparr>]"


definition zero_record :: prompt_record where
  "zero_record = sample_record\<lparr>rec_id := 4, embedding := Some zero_vector\<rparr>"



definition sample_draft :: prompt_record_draft where
  "sample_draft =
     \<lparr> d_user_id = None,
       d_original_prompt = Some ''a cat'', d_normalized_prompt = Some ''cat'',
       d_embedding = Some (replicate 768 0),
       d_model_id = Some ''imagen-3'', d_model_type = Some ''imagen'', d_mode = Some ''scene'',
       d_aspect_ratio = None,
       d_quality_score = Some (Num 0.9), d_full_body_score = None, d_background_score = None,
       d_face_clarity_score = None, d_match_score = None,
       d_was_approved = None, d_was_retried = None, d_retry_count = None,
       d_created_at = None, d_keywords = None, d_tags = None \<rparr>"

definition sample_learning :: model_learning where
  "sample_learning =
     \<lparr> ml_id = 1, ml_model_type = ''imagen'',
       total_generations = Some 5, approved_count = Some 4,
       avg_quality_score = Some (Num 0.85), approval_rate = Some (Num 0.8),
       best_aspect_ratios = Some (JObject [(''16:9'', JInteger 4)]),
       common_keywords =
         Some (JObject [(''b'', JInteger 1), (''8k'', JInteger 3), (''aa'', JInteger 1)]),
       successful_patterns = None, ml_updated_at = None \<rparr>"


section \<open>Self-similarity\<close>

lemma dot_product_self: "dot_product e e = (\<Sum>x\<leftarrow>e. x * x)"
  by (simp add: dot_product_def zip_same_conv_map comp_def)

lemma dot_product_self_nonneg: "0 \<le> dot_product e e"
  unfolding dot_product_self by (induction e) simp_all

lemma dot_product_self_zero_iff: "dot_product e e = 0 \<longleftrightarrow> (\<forall>x\<in>set e. x = 0)"
  unfolding dot_product_self
proof (induction e)
  case Nil
  then show ?case by simp
next
  case (Cons a e)
  have "0 \<le> (\<Sum>x\<leftarrow>e. x * x)"
    using dot_product_self_nonneg [of e] by (simp add: dot_product_self)
  then have "a * a + (\<Sum>x\<leftarrow>e. x * x) = 0 \<longleftrightarrow> a * a = 0 \<and> (\<Sum>x\<leftarrow>e. x * x) = 0"
    by (simp add: add_nonneg_eq_0_iff)
  with Cons show ?case by simp
qed

text \<open>
  C4, for the embeddings on which the cosine distance is defined. For every embedding
  \<open>e\<close> with at least one component that is not zero, of any dimension and so of
  dimension 768, the similarity of \<open>e\<close> to itself, one minus the cosine distance, is 1.
\<close>

theorem self_similarity_is_one:
  assumes "\<exists>x\<in>set e. x \<noteq> 0"
  shows "cosine_similarity e e = Some 1"
proof -
  from assms have nz: "dot_product e e \<noteq> 0"
    by (simp add: dot_product_self_zero_iff)
  have "sqrt (dot_product e e) * sqrt (dot_product e e) = dot_product e e"
    using dot_product_self_nonneg [of e] by simp
  with nz have "cosine_distance e e = Some 0"
    by (simp add: cosine_distance_def)
  then show ?thesis by (simp add: cosine_similarity_def)
qed

theorem self_similarity_is_one_witness:
  "cosine_similarity (1 # replicate 767 0) (1 # replicate 767 0) = Some 1
   \<and> length (1 # replicate 767 (0::real)) = 768"
proof -
  have "\<exists>x\<in>set (1 # replicate 767 (0::real)). x \<noteq> 0" by simp
  from self_similarity_is_one [OF this] show ?thesis by simp
qed

text \<open>
  C4 as stated fails for the zero vector of dimension 768: its norm is zero, the cosine
  distance to itself has no value, and neither has the similarity.
\<close>

theorem zero_vector_counterexample:
  "cosine_similarity (replicate 768 0) (replicate 768 0) = None
   \<and> length (replicate 768 (0::real)) = 768"
proof -
  have "dot_product (replicate 768 0) (replicate 768 0) = 0"
    by (simp add: dot_product_self_zero_iff)
  then show ?thesis by (simp add: cosine_similarity_def cosine_distance_def)
qed

section \<open>Ordering and limiting\<close>

lemma mset_order_by:
  assumes "rearranges arrange"
  shows "mset (order_by key arrange xs) = mset xs"
  using assms by (simp add: order_by_def rearranges_def)

lemma set_order_by:
  assumes "rearranges arrange"
  shows "set (order_by key arrange xs) = set xs"
  using mset_order_by [OF assms, of key xs] by (rule mset_eq_setD)

lemma length_order_by:
  assumes "rearranges arrange"
  shows "length (order_by key arrange xs) = length xs"
  using mset_order_by [OF assms, of key xs] by (rule mset_eq_length)

lemma sorted_order_by: "sorted (map key (order_by key arrange xs))"
  by (simp add: order_by_def)

lemma set_limit_rows: "set (limit_rows n xs) \<subseteq> set xs"
  by (auto simp: limit_rows_def dest: in_set_takeD split: option.splits)

lemma length_limit_rows:
  "length (limit_rows n xs) = (case n of None \<Rightarrow> length xs | Some k \<Rightarrow> min (nat k) (length xs))"
  by (simp add: limit_rows_def min.commute split: option.splits)

lemma sorted_wrt_limit_rows:
  assumes "sorted_wrt R xs"
  shows "sorted_wrt R (limit_rows n xs)"
  using assms by (auto simp: limit_rows_def intro: sorted_wrt_take split: option.splits)


lemma rearranges_id: "rearranges (\<lambda>xs. xs)"
  by (simp add: rearranges_def)


section \<open>Properties of search_similar_prompts\<close>

lemma candidate_SomeD:
  assumes "candidate dist_op q mt md thr r = Some c"
  shows "fst c = r"
    and "passes_filters mt md r"
    and "\<exists>e qe t. embedding r = Some e \<and> q = Some qe \<and> thr = Some t
           \<and> snd c = dist_op e qe \<and> pg_ge (one_minus (dist_op e qe)) t"
  using assms
  by (auto simp: candidate_def split: if_splits option.splits)

lemma qualifying_rows_origin:
  assumes "c \<in> set (qualifying_rows dist_op tbl q mt md thr)"
  shows "\<exists>r\<in>set tbl. candidate dist_op q mt md thr r = Some c"
  using assms by (auto simp: qualifying_rows_def List.map_filter_def)

lemma search_returns:
  assumes "\<not> negative_limit k"
  shows "search_similar_prompts arrange dist_op tbl q mt md k thr
         = Inr (map select_row
             (limit_rows k
                (order_by (\<lambda>c. float_rank (snd c)) arrange
                   (qualifying_rows dist_op tbl q mt md thr))))"
  using assms by (simp add: search_similar_prompts_def)

lemma search_row_origin:
  assumes "rearranges arrange"
    and "search_similar_prompts arrange dist_op tbl q mt md k thr = Inr rs"
    and "x \<in> set rs"
  shows "\<exists>r\<in>set tbl. \<exists>c. candidate dist_op q mt md thr r = Some c \<and> x = select_row c"
proof -
  let ?sorted = "order_by (\<lambda>c. float_rank (snd c)) arrange
             (qualifying_rows dist_op tbl q mt md thr)"
  from assms(2) have "\<not> negative_limit k"
    by (simp add: search_similar_prompts_def split: if_splits)
  from search_returns [OF this, of arrange dist_op tbl q mt md thr] assms(2)
  have "rs = map select_row (limit_rows k ?sorted)"
    by simp
  with assms(3) have "x \<in> select_row ` set (limit_rows k ?sorted)"
    by simp
  then obtain c where c: "c \<in> set (limit_rows k ?sorted)" and x: "x = select_row c"
    by (rule imageE)
  from set_limit_rows c have "c \<in> set ?sorted"
    by (rule subsetD)
  then have "c \<in> set (qualifying_rows dist_op tbl q mt md thr)"
    by (simp only: set_order_by [OF assms(1)])
  from qualifying_rows_origin [OF this] x show ?thesis by blast
qed

lemma similarity_select_row: "similarity (select_row c) = one_minus (snd c)"
  by (simp add: select_row_def)

lemma pg_ge_Num: "pg_ge (Num v) (Num w) \<longleftrightarrow> w \<le> v"
  by (simp add: pg_ge_def)

lemma pg_ge_NaN: "pg_ge NaN b"
  by (cases b) (simp_all add: pg_ge_def)

lemma pg_ge_floor:
  assumes "pg_ge s (Num w)"
  shows "s = NaN \<or> s = PosInf \<or> (\<exists>v. s = Num v \<and> w \<le> v)"
  using assms by (cases s) (simp_all add: pg_ge_def)


section \<open>The examples evaluated\<close>

lemma dot_product_Cons: "dot_product (x # xs) (y # ys) = x * y + dot_product xs ys"
  by (simp add: dot_product_def)

lemma dot_product_zero_left: "dot_product (replicate n 0) ys = 0"
proof (induction n arbitrary: ys)
  case 0
  then show ?case by (simp add: dot_product_def)
next
  case (Suc n)
  then show ?case by (cases ys) (simp_all add: dot_product_Cons, simp add: dot_product_def)
qed


lemma cosine_x_x: "pgvector_cosine unit_x unit_x = Num 0"
  by (simp add: pgvector_cosine_def cosine_distance_def unit_x_def dot_product_Cons
      dot_product_zero_left)



lemma cosine_zero: "pgvector_cosine zero_vector b = NaN"
  by (simp add: pgvector_cosine_def cosine_distance_def zero_vector_def dot_product_zero_left)

lemma not_negative_limit: "\<not> negative_limit None" "0 \<le> n \<Longrightarrow> \<not> negative_limit (Some n)"
  by (simp_all add: negative_limit_def)

lemma sample_search:
  "search_similar_prompts (\<lambda>xs. xs) pgvector_cosine sample_table (Some unit_x)
       (Some ''imagen'') None (Some 5) (Some (Num 0.7))
     = Inr [select_row (sample_record, Num 0)]"
  by (simp add: search_similar_prompts_def negative_limit_def limit_rows_def order_by_def
      qualifying_rows_def candidate_def passes_filters_def pg_ge_def sample_table_def
      sample_record_def cosine_x_x)

lemma zero_search:
  "search_similar_prompts (\<lambda>xs. xs) pgvector_cosine [zero_record] (Some unit_x) None None
       (Some 2) (Some (Num t))
     = Inr [select_row (zero_record, NaN)]"
  by (simp add: search_similar_prompts_def negative_limit_def limit_rows_def order_by_def
      qualifying_rows_def candidate_def passes_filters_def pg_ge_def zero_record_def
      sample_record_def cosine_zero)



text \<open>
  C1, as the query implements it. When the limit is not negative the function returns
  rows, and every row returned is the projection of a stored record that is approved,
  has an embedding, matches each of the model-type and mode filters that was supplied,
  and passes the two comparisons of the query as PostgreSQL evaluates them, with NaN
  above every number: its quality score is at least 0.7, or infinite, or NaN, and
  its similarity, one minus the distance, is at least the caller's threshold, or NaN.
  So a returned record is never unapproved and never has a numeric quality score
  under 0.7, and a numeric similarity returned is never under a numeric threshold.
\<close>

theorem search_returns_only_eligible:
  assumes "rearranges arrange" and "\<not> negative_limit k"
  shows "\<exists>rs. search_similar_prompts arrange dist_op tbl q mt md k thr = Inr rs
       \<and> (\<forall>x\<in>set rs. \<exists>r\<in>set tbl. \<exists>e qe t s.
             embedding r = Some e \<and> q = Some qe \<and> thr = Some t
           \<and> x = select_row (r, dist_op e qe)
           \<and> similarity x = one_minus (dist_op e qe)
           \<and> pg_ge (similarity x) t
           \<and> (\<forall>v w. similarity x = Num v \<and> t = Num w \<longrightarrow> w \<le> v)
           \<and> was_approved r = Some True
           \<and> quality_score r = Some s
           \<and> (s = NaN \<or> s = PosInf \<or> (\<exists>v. s = Num v \<and> 0.7 \<le> v))
           \<and> (\<forall>m. mt = Some m \<longrightarrow> model_type r = m)
           \<and> (\<forall>m. md = Some m \<longrightarrow> mode r = m))"
proof -
  let ?rs = "map select_row
             (limit_rows k
                (order_by (\<lambda>c. float_rank (snd c)) arrange
                   (qualifying_rows dist_op tbl q mt md thr)))"
  have ret: "search_similar_prompts arrange dist_op tbl q mt md k thr = Inr ?rs"
    using assms(2) by (rule search_returns)
  have "\<exists>r\<in>set tbl. \<exists>e qe t s.
             embedding r = Some e \<and> q = Some qe \<and> thr = Some t
           \<and> x = select_row (r, dist_op e qe)
           \<and> similarity x = one_minus (dist_op e qe)
           \<and> pg_ge (similarity x) t
           \<and> (\<forall>v w. similarity x = Num v \<and> t = Num w \<longrightarrow> w \<le> v)
           \<and> was_approved r = Some True
           \<and> quality_score r = Some s
           \<and> (s = NaN \<or> s = PosInf \<or> (\<exists>v. s = Num v \<and> 0.7 \<le> v))
           \<and> (\<forall>m. mt = Some m \<longrightarrow> model_type r = m)
           \<and> (\<forall>m. md = Some m \<longrightarrow> mode r = m)"
    if "x \<in> set ?rs" for x
  proof -
    from search_row_origin [OF assms(1) ret that] obtain r c
      where r: "r \<in> set tbl" and c: "candidate dist_op q mt md thr r = Some c"
        and x: "x = select_row c"
      by blast
    from candidate_SomeD [OF c] obtain e qe t
      where fst: "fst c = r" and pf: "passes_filters mt md r"
        and e: "embedding r = Some e" "q = Some qe" "thr = Some t"
        and d: "snd c = dist_op e qe" and ge: "pg_ge (one_minus (dist_op e qe)) t"
      by blast
    from fst d have pair: "c = (r, dist_op e qe)"
      by (cases c) simp
    from pf obtain s where s: "quality_score r = Some s" "pg_ge s (Num 0.7)"
      by (auto simp: passes_filters_def split: option.splits)
    from pf have ap: "was_approved r = Some True"
      and f1: "\<forall>m. mt = Some m \<longrightarrow> model_type r = m"
      and f2: "\<forall>m. md = Some m \<longrightarrow> mode r = m"
      by (auto simp: passes_filters_def)
    from x pair have sim: "similarity x = one_minus (dist_op e qe)"
      by (simp add: similarity_select_row)
    with ge have ge': "pg_ge (similarity x) t" by simp
    then have num: "\<forall>v w. similarity x = Num v \<and> t = Num w \<longrightarrow> w \<le> v"
      by (auto simp: pg_ge_Num)
    from pg_ge_floor [OF s(2)]
    have fl: "s = NaN \<or> s = PosInf \<or> (\<exists>v. s = Num v \<and> 0.7 \<le> v)" .
    from x pair have x': "x = select_row (r, dist_op e qe)" by simp
    show ?thesis
    proof (intro bexI exI conjI)
      show "embedding r = Some e" by (rule e(1))
      show "q = Some qe" by (rule e(2))
      show "thr = Some t" by (rule e(3))
      show "x = select_row (r, dist_op e qe)" by (rule x')
      show "similarity x = one_minus (dist_op e qe)" by (rule sim)
      show "pg_ge (similarity x) t" by (rule ge')
      show "\<forall>v w. similarity x = Num v \<and> t = Num w \<longrightarrow> w \<le> v" by (rule num)
      show "was_approved r = Some True" by (rule ap)
      show "quality_score r = Some s" by (rule s(1))
      show "s = NaN \<or> s = PosInf \<or> (\<exists>v. s = Num v \<and> 0.7 \<le> v)" by (rule fl)
      show "\<forall>m. mt = Some m \<longrightarrow> model_type r = m" by (rule f1)
      show "\<forall>m. md = Some m \<longrightarrow> mode r = m" by (rule f2)
      show "r \<in> set tbl" by (rule r)
    qed
  qed
  then have all: "\<forall>x\<in>set ?rs. \<exists>r\<in>set tbl. \<exists>e qe t s.
             embedding r = Some e \<and> q = Some qe \<and> thr = Some t
           \<and> x = select_row (r, dist_op e qe)
           \<and> similarity x = one_minus (dist_op e qe)
           \<and> pg_ge (similarity x) t
           \<and> (\<forall>v w. similarity x = Num v \<and> t = Num w \<longrightarrow> w \<le> v)
           \<and> was_approved r = Some True
           \<and> quality_score r = Some s
           \<and> (s = NaN \<or> s = PosInf \<or> (\<exists>v. s = Num v \<and> 0.7 \<le> v))
           \<and> (\<forall>m. mt = Some m \<longrightarrow> model_type r = m)
           \<and> (\<forall>m. md = Some m \<longrightarrow> mode r = m)"
    by (rule ballI)
  show ?thesis
  proof (intro exI conjI)
    show "search_similar_prompts arrange dist_op tbl q mt md k thr = Inr ?rs" by (rule ret)
    show "\<forall>x\<in>set ?rs. \<exists>r\<in>set tbl. \<exists>e qe t s.
             embedding r = Some e \<and> q = Some qe \<and> thr = Some t
           \<and> x = select_row (r, dist_op e qe)
           \<and> similarity x = one_minus (dist_op e qe)
           \<and> pg_ge (similarity x) t
           \<and> (\<forall>v w. similarity x = Num v \<and> t = Num w \<longrightarrow> w \<le> v)
           \<and> was_approved r = Some True
           \<and> quality_score r = Some s
           \<and> (s = NaN \<or> s = PosInf \<or> (\<exists>v. s = Num v \<and> 0.7 \<le> v))
           \<and> (\<forall>m. mt = Some m \<longrightarrow> model_type r = m)
           \<and> (\<forall>m. md = Some m \<longrightarrow> mode r = m)"
      by (rule all)
  qed
qed

theorem search_returns_only_eligible_witness:
  "search_similar_prompts (\<lambda>xs. xs) pgvector_cosine sample_table (Some unit_x)
       (Some ''imagen'') None (Some 5) (Some (Num 0.7))
     = Inr [select_row (sample_record, Num 0)]
   \<and> (\<exists>rs. search_similar_prompts (\<lambda>xs. xs) pgvector_cosine sample_table (Some unit_x)
            (Some ''imagen'') None (Some 5) (Some (Num 0.7)) = Inr rs
       \<and> (\<forall>x\<in>set rs. \<exists>r\<in>set sample_table. \<exists>e qe t s.
             embedding r = Some e \<and> Some unit_x = Some qe \<and> Some (Num 0.7) = Some t
           \<and> x = select_row (r, pgvector_cosine e qe)
           \<and> similarity x = one_minus (pgvector_cosine e qe)
           \<and> pg_ge (similarity x) t
           \<and> (\<forall>v w. similarity x = Num v \<and> t = Num w \<longrightarrow> w \<le> v)
           \<and> was_approved r = Some True
           \<and> quality_score r = Some s
           \<and> (s = NaN \<or> s = PosInf \<or> (\<exists>v. s = Num v \<and> 0.7 \<le> v))
           \<and> (\<forall>m. Some ''imagen'' = Some m \<longrightarrow> model_type r = m)
           \<and> (\<forall>m. None = Some m \<longrightarrow> mode r = m)))"
proof -
  have lim: "\<not> negative_limit (Some 5)"
    by (simp add: negative_limit_def)
  have "(\<exists>rs. search_similar_prompts (\<lambda>xs. xs) pgvector_cosine sample_table (Some unit_x)
            (Some ''imagen'') None (Some 5) (Some (Num 0.7)) = Inr rs
       \<and> (\<forall>x\<in>set rs. \<exists>r\<in>set sample_table. \<exists>e qe t s.
             embedding r = Some e \<and> Some unit_x = Some qe \<and> Some (Num 0.7) = Some t
           \<and> x = select_row (r, pgvector_cosine e qe)
           \<and> similarity x = one_minus (pgvector_cosine e qe)
           \<and> pg_ge (similarity x) t
           \<and> (\<forall>v w. similarity x = Num v \<and> t = Num w \<longrightarrow> w \<le> v)
           \<and> was_approved r = Some True
           \<and> quality_score r = Some s
           \<and> (s = NaN \<or> s = PosInf \<or> (\<exists>v. s = Num v \<and> 0.7 \<le> v))
           \<and> (\<forall>m. Some ''imagen'' = Some m \<longrightarrow> model_type r = m)
           \<and> (\<forall>m. None = Some m \<longrightarrow> mode r = m)))"
    by (rule search_returns_only_eligible [OF rearranges_id lim])
  with sample_search show ?thesis by (rule conjI)
qed

text \<open>
  C1 as stated fails for a record whose similarity is NaN. \<open>zero_record\<close> is approved,
  scores 0.9 and has the zero vector as its embedding; its cosine distance to any query
  is NaN. At the threshold 2, which no similarity reaches, the query returns it, with
  the similarity NaN.
\<close>

theorem search_returns_nan_counterexample:
  "search_similar_prompts (\<lambda>xs. xs) pgvector_cosine [zero_record] (Some unit_x) None None
       (Some 2) (Some (Num 2))
     = Inr [select_row (zero_record, NaN)]
   \<and> similarity (select_row (zero_record, NaN)) = NaN
   \<and> embedding zero_record = Some (replicate 768 0)"
proof -
  have "similarity (select_row (zero_record, NaN)) = NaN"
    by (simp add: select_row_def)
  moreover have "embedding zero_record = Some (replicate 768 0)"
    by (simp add: zero_record_def zero_vector_def)
  ultimately show ?thesis
    using zero_search [of 2] by simp
qed








section \<open>Properties of the insert\<close>

lemma new_row_bad_embedding:
  assumes "d_embedding d = Some e" "length e \<noteq> 768"
  shows "new_row new_id now d = Inl (Dimension_Mismatch 768 (length e))"
  using assms by (simp add: new_row_def coerce_embedding_def embedding_dimension_def)

lemma new_row_bad_mode:
  assumes "d_mode d \<noteq> Some ''character''" "d_mode d \<noteq> Some ''scene''"
  shows "\<exists>err. new_row new_id now d = Inl err"
  using assms
  by (auto simp: new_row_def mode_check_def split: sum.splits option.splits)

lemma new_row_error_kind:
  assumes "new_row new_id now d = Inl err"
  shows "\<forall>c. err \<noteq> Unique_Violation c"
  using assms
  by (auto simp: new_row_def coerce_embedding_def split: sum.splits option.splits if_splits)

text \<open>
  C6. Inserting a record whose embedding has a length other than 768, or whose mode is
  neither \<^verbatim>\<open>character\<close> nor \<^verbatim>\<open>scene\<close>, fails: the insert answers with an error that
  rejects the row itself (a wrong dimension, a NULL or a failed check, not a duplicate
  key), and the table it leaves is the table it was given, with the same rows and so
  the same number of them.
\<close>

theorem insert_rejects_invalid_record:
  assumes "(\<exists>e. d_embedding d = Some e \<and> length e \<noteq> 768)
           \<or> (d_mode d \<noteq> Some ''character'' \<and> d_mode d \<noteq> Some ''scene'')"
  shows "\<exists>err. insert_dop_prompt_record new_id now d tbl = (Inl err, tbl)
             \<and> (\<forall>c. err \<noteq> Unique_Violation c)"
proof -
  from assms obtain err where err: "new_row new_id now d = Inl err"
    using new_row_bad_embedding new_row_bad_mode by blast
  then have "insert_dop_prompt_record new_id now d tbl = (Inl err, tbl)"
    by (simp add: insert_dop_prompt_record_def)
  with new_row_error_kind [OF err] show ?thesis by blast
qed

theorem insert_rejects_invalid_record_witness:
  "insert_dop_prompt_record 4 0 (sample_draft\<lparr>d_embedding := Some (replicate 512 0)\<rparr>) sample_table
     = (Inl (Dimension_Mismatch 768 512), sample_table)
   \<and> (\<exists>err. insert_dop_prompt_record 4 0 (sample_draft\<lparr>d_mode := Some ''video''\<rparr>) sample_table
         = (Inl err, sample_table))"
proof -
  have "\<exists>err. insert_dop_prompt_record 4 0 (sample_draft\<lparr>d_mode := Some ''video''\<rparr>) sample_table
           = (Inl err, sample_table) \<and> (\<forall>c. err \<noteq> Unique_Violation c)"
    by (rule insert_rejects_invalid_record) (simp add: sample_draft_def)
  moreover
  have "insert_dop_prompt_record 4 0 (sample_draft\<lparr>d_embedding := Some (replicate 512 0)\<rparr>) sample_table
     = (Inl (Dimension_Mismatch 768 512), sample_table)"
    by (simp add: insert_dop_prompt_record_def new_row_def coerce_embedding_def
        embedding_dimension_def sample_draft_def)
  ultimately show ?thesis by blast
qed

text \<open>
  C9. The schema documents the quality score as a value from 0.0 to 1.0, and every
  stored score should be unset or within that range. The table does not hold the
  range: a record supplied with the quality score 1.5 is accepted and stored with it.
\<close>

theorem insert_accepts_out_of_range_score:
  "fst (insert_dop_prompt_record 4 0 (sample_draft\<lparr>d_quality_score := Some (Num 1.5)\<rparr>) [])
     = Inr 4
   \<and> map quality_score
        (snd (insert_dop_prompt_record 4 0 (sample_draft\<lparr>d_quality_score := Some (Num 1.5)\<rparr>) []))
       = [Some (Num 1.5)]
   \<and> \<not> score_in_range (Some (Num 1.5))"
  by (simp add: insert_dop_prompt_record_def new_row_def coerce_embedding_def
        embedding_dimension_def sample_draft_def mode_check_def score_in_range_def)

section \<open>Properties of get_model_best_keywords\<close>

lemma frequency_descending_iff:
  "frequency_descending a b \<longleftrightarrow> desc_nulls_first a \<le> desc_nulls_first b"
  by (cases a; cases b) (simp_all add: frequency_descending_def desc_nulls_first_def)


lemma limit_zero: "limit_rows (Some 0) xs = []"
  by (simp add: limit_rows_def)

lemma best_keywords_returns:
  assumes "\<not> negative_limit n" and "target_keyword_rows tbl t = Inr rows"
  shows "get_model_best_keywords arrange tbl t n
         = Inr (limit_rows n (order_by (\<lambda>k. desc_nulls_first (snd k)) arrange rows))"
  using assms by (simp add: get_model_best_keywords_def limit_zero)

lemma best_keywords_fails:
  assumes "\<not> negative_limit n" and "n \<noteq> Some 0" and "target_keyword_rows tbl t = Inl err"
  shows "get_model_best_keywords arrange tbl t n = Inl err"
  using assms by (simp add: get_model_best_keywords_def)

lemma sorted_frequencies:
  assumes "sorted (map (\<lambda>k. desc_nulls_first (snd k)) ord)"
  shows "sorted_wrt (\<lambda>a b. frequency_descending (snd a) (snd b)) (limit_rows n ord)"
proof -
  from assms have "sorted_wrt (\<lambda>a b. frequency_descending (snd a) (snd b)) ord"
    by (simp add: sorted_map frequency_descending_iff)
  then show ?thesis by (rule sorted_wrt_limit_rows)
qed

lemma sample_keyword_rows:
  "target_keyword_rows [sample_learning] (Some ''imagen'')
     = Inr [(''b'', Some 1), (''8k'', Some 3), (''aa'', Some 1)]"
  by (simp add: target_keyword_rows_def keyword_rows_def cast_int_def sample_learning_def)

lemma sample_best_keywords:
  "get_model_best_keywords (\<lambda>xs. xs) [sample_learning] (Some ''imagen'') default_keyword_limit
     = Inr [(''8k'', Some 3), (''b'', Some 1), (''aa'', Some 1)]"
  by (simp add: best_keywords_returns [OF _ sample_keyword_rows] negative_limit_def
      default_keyword_limit_def limit_rows_def order_by_def desc_nulls_first_def)


text \<open>
  C5, as the query implements it. When the limit is not negative and every count
  stored for the model type reads as an \<^verbatim>\<open>INT\<close> or is null, the function returns
  pairs of keyword and frequency in descending order of frequency, the pairs without a
  frequency first. It returns as many pairs as the model type has keywords, up to the
  limit (up to 20 under the default limit), and they are the first of an arrangement of
  all the keywords in descending order of frequency, so that no keyword left out has a
  higher frequency than one returned. The query orders by the frequency alone: the
  order among keywords of equal frequency is the executor's.
\<close>

theorem best_keywords_sorted_and_truncated:
  assumes "rearranges arrange" and "\<not> negative_limit n"
    and "target_keyword_rows tbl t = Inr rows"
  shows "\<exists>rs ord.
           get_model_best_keywords arrange tbl t n = Inr rs
         \<and> mset ord = mset rows
         \<and> sorted (map (\<lambda>k. desc_nulls_first (snd k)) ord)
         \<and> rs = limit_rows n ord
         \<and> sorted_wrt (\<lambda>a b. frequency_descending (snd a) (snd b)) rs
         \<and> length rs = (case n of None \<Rightarrow> length rows | Some k \<Rightarrow> min (nat k) (length rows))
         \<and> (n = default_keyword_limit \<longrightarrow> length rs \<le> 20)"
proof -
  let ?ord = "order_by (\<lambda>k. desc_nulls_first (snd k)) arrange rows"
  let ?rs = "limit_rows n ?ord"
  have ret: "get_model_best_keywords arrange tbl t n = Inr ?rs"
    using assms(2,3) by (rule best_keywords_returns)
  have ms: "mset ?ord = mset rows"
    using assms(1) by (rule mset_order_by)
  have so: "sorted (map (\<lambda>k. desc_nulls_first (snd k)) ?ord)"
    by (rule sorted_order_by)
  have sw: "sorted_wrt (\<lambda>a b. frequency_descending (snd a) (snd b)) ?rs"
    using so by (rule sorted_frequencies)
  have len: "length ?rs = (case n of None \<Rightarrow> length rows | Some k \<Rightarrow> min (nat k) (length rows))"
    by (cases n) (simp_all add: limit_rows_def length_order_by [OF assms(1)] min.commute)
  have def: "n = default_keyword_limit \<longrightarrow> length ?rs \<le> 20"
    by (simp add: default_keyword_limit_def limit_rows_def)
  show ?thesis
  proof (intro exI conjI)
    show "get_model_best_keywords arrange tbl t n = Inr ?rs" by (rule ret)
    show "mset ?ord = mset rows" by (rule ms)
    show "sorted (map (\<lambda>k. desc_nulls_first (snd k)) ?ord)" by (rule so)
    show "?rs = limit_rows n ?ord" by (rule refl)
    show "sorted_wrt (\<lambda>a b. frequency_descending (snd a) (snd b)) ?rs" by (rule sw)
    show "length ?rs = (case n of None \<Rightarrow> length rows | Some k \<Rightarrow> min (nat k) (length rows))"
      by (rule len)
    show "n = default_keyword_limit \<longrightarrow> length ?rs \<le> 20" by (rule def)
  qed
qed

theorem best_keywords_sorted_and_truncated_witness:
  "get_model_best_keywords (\<lambda>xs. xs) [sample_learning] (Some ''imagen'') (Some 2)
     = Inr [(''8k'', Some 3), (''b'', Some 1)]
   \<and> (\<exists>rs ord.
           get_model_best_keywords (\<lambda>xs. xs) [sample_learning] (Some ''imagen'') (Some 2) = Inr rs
         \<and> mset ord = mset [(''b'', Some 1), (''8k'', Some 3), (''aa'', Some 1)]
         \<and> sorted (map (\<lambda>k. desc_nulls_first (snd k)) ord)
         \<and> rs = limit_rows (Some 2) ord
         \<and> sorted_wrt (\<lambda>a b. frequency_descending (snd a) (snd b)) rs
         \<and> length rs = (case Some 2 of
              None \<Rightarrow> length [(''b'', Some (1::int)), (''8k'', Some 3), (''aa'', Some 1)]
            | Some k \<Rightarrow> min (nat k) (length [(''b'', Some (1::int)), (''8k'', Some 3), (''aa'', Some 1)]))
         \<and> (Some 2 = default_keyword_limit \<longrightarrow> length rs \<le> 20))"
proof -
  have lim: "\<not> negative_limit (Some 2)"
    by (simp add: negative_limit_def)
  have ev: "get_model_best_keywords (\<lambda>xs. xs) [sample_learning] (Some ''imagen'') (Some 2)
     = Inr [(''8k'', Some 3), (''b'', Some 1)]"
    by (simp add: best_keywords_returns [OF lim sample_keyword_rows] limit_rows_def order_by_def
        desc_nulls_first_def)
  have "\<exists>rs ord.
           get_model_best_keywords (\<lambda>xs. xs) [sample_learning] (Some ''imagen'') (Some 2) = Inr rs
         \<and> mset ord = mset [(''b'', Some 1), (''8k'', Some 3), (''aa'', Some 1)]
         \<and> sorted (map (\<lambda>k. desc_nulls_first (snd k)) ord)
         \<and> rs = limit_rows (Some 2) ord
         \<and> sorted_wrt (\<lambda>a b. frequency_descending (snd a) (snd b)) rs
         \<and> length rs = (case Some 2 of
              None \<Rightarrow> length [(''b'', Some (1::int)), (''8k'', Some 3), (''aa'', Some 1)]
            | Some k \<Rightarrow> min (nat k) (length [(''b'', Some (1::int)), (''8k'', Some 3), (''aa'', Some 1)]))
         \<and> (Some 2 = default_keyword_limit \<longrightarrow> length rs \<le> 20)"
    by (rule best_keywords_sorted_and_truncated [OF rearranges_id lim sample_keyword_rows])
  with ev show ?thesis by (rule conjI)
qed

text \<open>
  C5 as stated fails in three ways. On ties: the histogram of \<open>sample_learning\<close> holds
  \<^verbatim>\<open>b\<close> and \<^verbatim>\<open>aa\<close> with frequency 1, \<^verbatim>\<open>b\<close> first, and the query returns \<^verbatim>\<open>b\<close> before
  \<^verbatim>\<open>aa\<close>, although \<^verbatim>\<open>aa\<close> is the smaller keyword. On the limit: with the limit -1 the
  function fails. On the counts: with a count that does not read as an integer the
  function fails.
\<close>

theorem best_keywords_ties_counterexample:
  "get_model_best_keywords (\<lambda>xs. xs) [sample_learning] (Some ''imagen'') default_keyword_limit
     = Inr [(''8k'', Some 3), (''b'', Some 1), (''aa'', Some 1)]
   \<and> (''aa'' :: string) < ''b''
   \<and> get_model_best_keywords (\<lambda>xs. xs) [sample_learning] (Some ''imagen'') (Some (- 1))
     = Inl Negative_Limit
   \<and> get_model_best_keywords (\<lambda>xs. xs)
        [sample_learning\<lparr>common_keywords := Some (JObject [(''b'', JOther)])\<rparr>]
        (Some ''imagen'') default_keyword_limit
     = Inl Invalid_Integer"
proof -
  have a: "(''aa'' :: string) < ''b''" by simp
  have b: "get_model_best_keywords (\<lambda>xs. xs) [sample_learning] (Some ''imagen'') (Some (- 1))
     = Inl Negative_Limit"
    by (simp add: get_model_best_keywords_def negative_limit_def)
  have c: "get_model_best_keywords (\<lambda>xs. xs)
        [sample_learning\<lparr>common_keywords := Some (JObject [(''b'', JOther)])\<rparr>]
        (Some ''imagen'') default_keyword_limit
     = Inl Invalid_Integer"
    by (simp add: get_model_best_keywords_def negative_limit_def default_keyword_limit_def
        target_keyword_rows_def keyword_rows_def cast_int_def sample_learning_def)
  from sample_best_keywords a b c show ?thesis by (intro conjI)
qed






section \<open>The counters of the aggregate\<close>

lemma counters_created:
  "agg_total_generations (get_learning (on_record_created r st) t)
     = (if t = model_type r then agg_total_generations (get_learning st t) + 1
        else agg_total_generations (get_learning st t))"
  "agg_approved_count (get_learning (on_record_created r st) t)
     = agg_approved_count (get_learning st t)"
  by (simp_all add: on_record_created_def get_learning_def Let_def)

lemma counters_approved:
  "agg_total_generations (get_learning (on_record_approved r st) t)
     = agg_total_generations (get_learning st t)"
  "agg_approved_count (get_learning (on_record_approved r st) t)
     = (if t = model_type r then agg_approved_count (get_learning st t) + 1
        else agg_approved_count (get_learning st t))"
  by (simp_all add: on_record_approved_def get_learning_def Let_def)

lemma get_learning_empty: "get_learning Map.empty t = empty_aggregate"
  by (simp add: get_learning_def)

lemma sample_record_model_type: "model_type sample_record = ''imagen''"
  by (simp add: sample_record_def)

lemma pending_remove1:
  assumes "(i, m) \<in> set pending"
  shows "length (filter (\<lambda>p. snd p = t) (remove1 (i, m) pending))
         = (if t = m then length (filter (\<lambda>p. snd p = t) pending) - 1
            else length (filter (\<lambda>p. snd p = t) pending))"
  using assms by (simp add: filter_remove1 length_remove1)

lemma pending_positive:
  assumes "(i, m) \<in> set pending"
  shows "0 < length (filter (\<lambda>p. snd p = m) pending)"
proof -
  from assms have "(i, m) \<in> set (filter (\<lambda>p. snd p = m) pending)" by simp
  then show ?thesis by (rule length_pos_if_in_set)
qed

text \<open>
  The invariant behind the claim: for each model type, the approved count plus the
  number of records still pending is at most the total.
\<close>

lemma lifecycle_invariant:
  assumes "lifecycle_ok pending es"
    and "\<forall>t. agg_approved_count (get_learning st t) + length (filter (\<lambda>p. snd p = t) pending)
             \<le> agg_total_generations (get_learning st t)"
  shows "agg_approved_count (get_learning (apply_events es st) t)
         \<le> agg_total_generations (get_learning (apply_events es st) t)"
  using assms
proof (induction pending es arbitrary: st rule: lifecycle_ok.induct)
  case (1 pending)
  then have "agg_approved_count (get_learning st t) + length (filter (\<lambda>p. snd p = t) pending)
             \<le> agg_total_generations (get_learning st t)" by blast
  then show ?case by simp
next
  case (2 pending r es)
  have "\<forall>t. agg_approved_count (get_learning (on_record_created r st) t)
            + length (filter (\<lambda>p. snd p = t) ((rec_id r, model_type r) # pending))
          \<le> agg_total_generations (get_learning (on_record_created r st) t)"
    using "2.prems"(2) by (auto simp: counters_created)
  moreover from "2.prems"(1) have "lifecycle_ok ((rec_id r, model_type r) # pending) es" by simp
  ultimately show ?case using "2.IH" by simp
next
  case (3 pending r es)
  from "3.prems"(1) have mem: "(rec_id r, model_type r) \<in> set pending"
    and ok: "lifecycle_ok (remove1 (rec_id r, model_type r) pending) es" by simp_all
  have "\<forall>t. agg_approved_count (get_learning (on_record_approved r st) t)
            + length (filter (\<lambda>p. snd p = t) (remove1 (rec_id r, model_type r) pending))
          \<le> agg_total_generations (get_learning (on_record_approved r st) t)"
  proof
    fix t
    from "3.prems"(2)
    have h: "agg_approved_count (get_learning st t) + length (filter (\<lambda>p. snd p = t) pending)
             \<le> agg_total_generations (get_learning st t)" by blast
    show "agg_approved_count (get_learning (on_record_approved r st) t)
            + length (filter (\<lambda>p. snd p = t) (remove1 (rec_id r, model_type r) pending))
          \<le> agg_total_generations (get_learning (on_record_approved r st) t)"
    proof (cases "t = model_type r")
      case True
      let ?n = "length (filter (\<lambda>p. snd p = t) pending)"
      from pending_positive [OF mem] True have pos: "0 < ?n" by simp
      have less: "length (filter (\<lambda>p. snd p = t) (remove1 (rec_id r, model_type r) pending))
                  = ?n - 1"
        using True by (simp add: pending_remove1 [OF mem])
      have more: "agg_approved_count (get_learning (on_record_approved r st) t)
                  = agg_approved_count (get_learning st t) + 1"
        using True by (simp add: counters_approved)
      have same: "agg_total_generations (get_learning (on_record_approved r st) t)
                  = agg_total_generations (get_learning st t)"
        by (simp add: counters_approved)
      from h pos show ?thesis unfolding less more same by arith
    next
      case False
      with h show ?thesis
        by (simp add: counters_approved pending_remove1 [OF mem])
    qed
  qed
  with ok show ?case using "3.IH" by simp
qed

lemma apply_event_monotone:
  "agg_total_generations (get_learning st t)
     \<le> agg_total_generations (get_learning (apply_event e st) t)
   \<and> agg_approved_count (get_learning st t)
     \<le> agg_approved_count (get_learning (apply_event e st) t)"
  by (cases e) (simp_all add: counters_created counters_approved)

lemma apply_events_monotone:
  "agg_total_generations (get_learning st t)
     \<le> agg_total_generations (get_learning (apply_events es st) t)
   \<and> agg_approved_count (get_learning st t)
     \<le> agg_approved_count (get_learning (apply_events es st) t)"
proof (induction es arbitrary: st)
  case Nil
  then show ?case by simp
next
  case (Cons e es)
  from apply_event_monotone [of st t e] Cons.IH [of "apply_event e st"]
  show ?case by (simp del: apply_event.simps)
qed

text \<open>
  C3. The events of the aggregate follow the life cycle of the records: a record is
  created first, and \<open>on_record_approved\<close> is called once for it, when it becomes
  approved, under the model type it was created with. Starting from the empty store,
  after any such sequence of \<open>on_record_created\<close> and \<open>on_record_approved\<close> events
  the approved count of every model type is at most its total. And for every store
  and every sequence of events, neither counter of any model type decreases.
\<close>

theorem counters_under_lifecycle:
  assumes "lifecycle_ok [] es"
  shows "agg_approved_count (get_learning (apply_events es Map.empty) t)
           \<le> agg_total_generations (get_learning (apply_events es Map.empty) t)
       \<and> (\<forall>st more.
             agg_total_generations (get_learning st t)
               \<le> agg_total_generations (get_learning (apply_events more st) t)
           \<and> agg_approved_count (get_learning st t)
               \<le> agg_approved_count (get_learning (apply_events more st) t))"
proof -
  have "\<forall>t. agg_approved_count (get_learning Map.empty t) + length (filter (\<lambda>p. snd p = t) [])
             \<le> agg_total_generations (get_learning Map.empty t)"
    by (simp add: get_learning_def empty_aggregate_def)
  from lifecycle_invariant [OF assms this] apply_events_monotone show ?thesis by blast
qed

theorem counters_under_lifecycle_witness:
  "lifecycle_ok [] [Record_Created sample_record, Record_Approved sample_record]
   \<and> agg_approved_count (get_learning
        (apply_events [Record_Created sample_record, Record_Approved sample_record] Map.empty)
        ''imagen'') = 1
   \<and> agg_total_generations (get_learning
        (apply_events [Record_Created sample_record, Record_Approved sample_record] Map.empty)
        ''imagen'') = 1"
proof -
  have ok: "lifecycle_ok [] [Record_Created sample_record, Record_Approved sample_record]"
    by simp
  have a: "agg_approved_count (get_learning
        (apply_events [Record_Created sample_record, Record_Approved sample_record] Map.empty)
        ''imagen'') = 1"
    by (simp add: counters_created counters_approved sample_record_model_type
        get_learning_empty empty_aggregate_def)
  have "agg_total_generations (get_learning
        (apply_events [Record_Created sample_record, Record_Approved sample_record] Map.empty)
        ''imagen'') \<le> 1"
    by (simp add: counters_created counters_approved sample_record_model_type
        get_learning_empty empty_aggregate_def)
  with counters_under_lifecycle [OF ok, of "''imagen''"] a ok show ?thesis by simp
qed

section \<open>The editor's history\<close>

lemma length_slice_last: "length (slice_last n xs) = min n (length xs)"
  by (simp add: slice_last_def)

lemma history_addToHistory: "length (history (addToHistory img s)) \<le> 50"
  by (simp add: addToHistory_def length_slice_last)

lemma editor_step_bound:
  assumes "length (history s) \<le> 50"
  shows "length (history (editor_step a s)) \<le> 50"
  using assms
  by (cases a)
     (simp_all add: openEditor_def closeEditor_def clearHistory_def onEditorSave_def
        history_addToHistory split: option.splits)

lemma editor_run_bound:
  assumes "length (history s) \<le> 50"
  shows "length (history (editor_run acts s)) \<le> 50"
  using assms
proof (induction acts arbitrary: s)
  case Nil
  then show ?case by simp
next
  case (Cons a acts)
  from Cons.prems have "length (history (editor_step a s)) \<le> 50"
    by (rule editor_step_bound)
  then show ?case by (simp add: Cons.IH)
qed

lemma addToHistory_below:
  assumes "length (history s) < 50"
  shows "history (addToHistory img s) = history s @ [img]"
  using assms by (simp add: addToHistory_def slice_last_def)

lemma addToHistory_full:
  assumes "length (history s) = 50"
  shows "history (addToHistory img s) = tl (history s) @ [img]"
  using assms by (cases "history s") (simp_all add: addToHistory_def slice_last_def)

lemma full_editor_state_history: "history full_editor_state = replicate 50 sample_image"
  by (simp add: full_editor_state_def)

text \<open>
  C10. From the initial state, and from every editor state whose history holds at most
  50 entries, every sequence of \<open>openEditor\<close>, \<open>closeEditor\<close>, \<open>addToHistory\<close>,
  \<open>clearHistory\<close> and \<open>onEditorSave\<close> calls leads to a state whose history holds at most
  50 entries. \<open>addToHistory\<close> keeps the last 50 entries of the history with the new
  entry appended: under the bound it appends, and at the bound it drops the oldest
  entry and appends.
\<close>

theorem history_at_most_50:
  assumes "length (history s) \<le> 50"
  shows "length (history (editor_run acts s)) \<le> 50
       \<and> length (history (editor_run acts initial_editor_state)) \<le> 50
       \<and> history (addToHistory img s) = slice_last 50 (history s @ [img])
       \<and> (length (history s) < 50 \<longrightarrow> history (addToHistory img s) = history s @ [img])
       \<and> (length (history s) = 50 \<longrightarrow> history (addToHistory img s) = tl (history s) @ [img])"
proof -
  have "length (history initial_editor_state) \<le> 50"
    by (simp add: initial_editor_state_def)
  then have "length (history (editor_run acts initial_editor_state)) \<le> 50"
    by (rule editor_run_bound)
  with editor_run_bound [OF assms] addToHistory_below addToHistory_full
  show ?thesis by (simp add: addToHistory_def)
qed

theorem history_at_most_50_witness:
  "length (history full_editor_state) = 50
   \<and> length (history (editor_run
        [OpenEditor sample_image, OnEditorSave ''edited'' ''img_2'' 1, AddToHistory sample_image]
        full_editor_state)) \<le> 50
   \<and> history (addToHistory (sample_image\<lparr>img_id := ''img_3''\<rparr>) full_editor_state)
       = replicate 49 sample_image @ [sample_image\<lparr>img_id := ''img_3''\<rparr>]"
proof -
  have len: "length (history full_editor_state) = 50"
    by (simp add: full_editor_state_history)
  then have le: "length (history full_editor_state) \<le> 50" by simp
  have tl: "tl (history full_editor_state) = replicate 49 sample_image"
    by (simp add: full_editor_state_history)
  note bound = history_at_most_50 [OF le,
      of "[OpenEditor sample_image, OnEditorSave ''edited'' ''img_2'' 1, AddToHistory sample_image]"
         "sample_image\<lparr>img_id := ''img_3''\<rparr>"]
  from bound have run: "length (history (editor_run
        [OpenEditor sample_image, OnEditorSave ''edited'' ''img_2'' 1, AddToHistory sample_image]
        full_editor_state)) \<le> 50"
    by blast
  from bound len
  have "history (addToHistory (sample_image\<lparr>img_id := ''img_3''\<rparr>) full_editor_state)
          = tl (history full_editor_state) @ [sample_image\<lparr>img_id := ''img_3''\<rparr>]"
    by blast
  then have "history (addToHistory (sample_image\<lparr>img_id := ''img_3''\<rparr>) full_editor_state)
          = replicate 49 sample_image @ [sample_image\<lparr>img_id := ''img_3''\<rparr>]"
    by (simp only: tl)
  with len run show ?thesis by blast
qed

end
